theory Spec2Isabelle
  imports Main "HOL-Library.AList" "HOL-Library.Sublist"
begin

section \<open>Python values and exceptions\<close>

text \<open>
  The module \<^verbatim>\<open>cachet.py\<close> passes around untyped Python values: keyword arguments,
  schema defaults, decoded JSON bodies and the result dictionaries it returns. They are
  modelled by one datatype. A dictionary is an association list in insertion order with
  distinct keys; \<open>d[k] = v\<close> is \<open>AList.update k v d\<close> (a new key goes to the end, an
  existing key keeps its place). Floating point numbers are left out.
\<close>

datatype pyval =
    PNone
  | PBool bool
  | PInt int
  | PStr string
  | PList "pyval list"
  | PDict "(string \<times> pyval) list"

type_synonym pydict = "(string \<times> pyval) list"

text \<open>Every \<^verbatim>\<open>raise\<close> and every failing primitive of the source is a value of this type.\<close>

datatype error =
    Exception string
  | KeyError string
  | NameError string
  | UnboundLocalError string
  | TypeError
  | ValueError
  | AttributeError

text \<open>Python's truth value of an object, as tested by \<^verbatim>\<open>if x\<close>, \<^verbatim>\<open>not x\<close>, \<^verbatim>\<open>and\<close>, \<^verbatim>\<open>or\<close>.\<close>

fun truthy :: "pyval \<Rightarrow> bool" where
  "truthy PNone = False"
| "truthy (PBool b) = b"
| "truthy (PInt n) = (n \<noteq> 0)"
| "truthy (PStr s) = (s \<noteq> [])"
| "truthy (PList xs) = (xs \<noteq> [])"
| "truthy (PDict d) = (d \<noteq> [])"

text \<open>\<^verbatim>\<open>d[k]\<close> on a dictionary: a missing key raises \<^verbatim>\<open>KeyError\<close>.\<close>

definition getitem :: "pydict \<Rightarrow> string \<Rightarrow> error + pyval" where
  "getitem d k = (case map_of d k of None \<Rightarrow> Inl (KeyError k) | Some v \<Rightarrow> Inr v)"

text \<open>
  \<^verbatim>\<open>x[k]\<close> with a string key on any value: only a dictionary can be subscripted by a
  string; lists and strings want integer indices, the other values no subscript at all.
\<close>

fun subscript :: "pyval \<Rightarrow> string \<Rightarrow> error + pyval" where
  "subscript (PDict d) k = getitem d k"
| "subscript _ k = Inl TypeError"

text \<open>
  \<^verbatim>\<open>k in x\<close> with a string \<open>k\<close>: key membership for a dictionary, element membership
  for a list, substring test for a string, \<^verbatim>\<open>TypeError\<close> otherwise.
\<close>

fun is_substring :: "string \<Rightarrow> string \<Rightarrow> bool" where
  "is_substring p [] = (p = [])"
| "is_substring p (c # cs) = (prefix p (c # cs) \<or> is_substring p cs)"

fun contains :: "string \<Rightarrow> pyval \<Rightarrow> error + bool" where
  "contains k (PDict d) = Inr (map_of d k \<noteq> None)"
| "contains k (PList xs) = Inr (PStr k \<in> set xs)"
| "contains k (PStr s) = Inr (is_substring k s)"
| "contains k _ = Inl TypeError"

text \<open>
  \<^verbatim>\<open>x.get(k)\<close>: a method of dictionaries only. A key that is not in the dictionary gives
  \<^verbatim>\<open>None\<close>; the keys of these dictionaries are strings, so any other hashable key is not
  in it, and an unhashable key (a list, a dictionary) raises \<^verbatim>\<open>TypeError\<close>.
\<close>

fun get_method :: "pyval \<Rightarrow> pyval \<Rightarrow> error + pyval" where
  "get_method (PDict d) (PStr k) = Inr (case map_of d k of None \<Rightarrow> PNone | Some v \<Rightarrow> v)"
| "get_method (PDict d) (PList ks) = Inl TypeError"
| "get_method (PDict d) (PDict ks) = Inl TypeError"
| "get_method (PDict d) k = Inr PNone"
| "get_method x k = Inl AttributeError"

subsection \<open>Integers and their decimal form\<close>

text \<open>\<^verbatim>\<open>'%d' % n\<close> and \<^verbatim>\<open>'%s' % n\<close> for an integer \<open>n\<close>.\<close>

definition digit_char :: "nat \<Rightarrow> char" where
  "digit_char d = char_of (48 + d)"

fun nat_digits :: "nat \<Rightarrow> string" where
  "nat_digits n = (if n < 10 then [digit_char n] else nat_digits (n div 10) @ [digit_char (n mod 10)])"

declare nat_digits.simps [simp del]

definition format_d :: "int \<Rightarrow> string" where
  "format_d i = (if i < 0 then CHR ''-'' # nat_digits (nat (- i)) else nat_digits (nat i))"

text \<open>
  One \<^verbatim>\<open>%d\<close> of a format string applied to a value: a number is required. An integer is
  written in decimal, a boolean as 1 or 0, and every other value raises \<^verbatim>\<open>TypeError\<close>.
\<close>

fun percent_d :: "pyval \<Rightarrow> error + string" where
  "percent_d (PInt n) = Inr (format_d n)"
| "percent_d (PBool b) = Inr (if b then ''1'' else ''0'')"
| "percent_d x = Inl TypeError"

text \<open>
  \<^verbatim>\<open>int(x)\<close>: an integer is itself, a boolean is 0 or 1, a string is parsed (surrounding
  blanks, an optional sign, then decimal digits) and raises \<^verbatim>\<open>ValueError\<close> when it is
  not such a numeral, every other value raises \<^verbatim>\<open>TypeError\<close>. Digit grouping by
  underscores and digits or blanks outside ASCII, which later versions of Python accept,
  are not parsed.
\<close>

definition is_digit :: "char \<Rightarrow> bool" where
  "is_digit c = (c \<in> set ''0123456789'')"

definition digit_value :: "char \<Rightarrow> nat" where
  "digit_value c = of_char c - 48"

definition parse_digits :: "string \<Rightarrow> nat option" where
  "parse_digits s =
     (if s \<noteq> [] \<and> list_all is_digit s
      then Some (foldl (\<lambda>acc c. 10 * acc + digit_value c) 0 s) else None)"

definition is_blank :: "char \<Rightarrow> bool" where
  "is_blank c = (c \<in> set [CHR '' '', CHR 0x09, CHR 0x0A, CHR 0x0B, CHR 0x0C, CHR 0x0D])"

definition strip :: "string \<Rightarrow> string" where
  "strip s = rev (dropWhile is_blank (rev (dropWhile is_blank s)))"

definition int_of_string :: "string \<Rightarrow> error + int" where
  "int_of_string s =
     (case strip s of
        [] \<Rightarrow> Inl ValueError
      | c # cs \<Rightarrow>
          (if c = CHR ''-'' then
             (case parse_digits cs of None \<Rightarrow> Inl ValueError | Some n \<Rightarrow> Inr (- int n))
           else if c = CHR ''+'' then
             (case parse_digits cs of None \<Rightarrow> Inl ValueError | Some n \<Rightarrow> Inr (int n))
           else
             (case parse_digits (c # cs) of None \<Rightarrow> Inl ValueError | Some n \<Rightarrow> Inr (int n))))"

fun py_int :: "pyval \<Rightarrow> error + int" where
  "py_int (PInt n) = Inr n"
| "py_int (PBool b) = Inr (if b then 1 else 0)"
| "py_int (PStr s) = int_of_string s"
| "py_int _ = Inl TypeError"

section \<open>Schema registry\<close>

text \<open>
  One entry of \<^verbatim>\<open>CACHET_PARAMS_DEFINITION\<close>: the \<^verbatim>\<open>'mandatory'\<close> flag and the
  \<^verbatim>\<open>'default'\<close> key, \<open>None\<close> when the entry has no such key (which is not the same as a
  default of Python's \<^verbatim>\<open>None\<close>, written \<open>Some PNone\<close>).
\<close>

record field_spec =
  mandatory :: bool
  default :: "pyval option"

type_synonym schema = "(string \<times> field_spec) list"

definition field :: "bool \<Rightarrow> pyval option \<Rightarrow> field_spec" where
  "field m d = \<lparr>mandatory = m, default = d\<rparr>"

definition CACHET_PARAMS_DEFINITION :: "(string \<times> (string \<times> schema) list) list" where
  "CACHET_PARAMS_DEFINITION =
    [(''components'',
       [(''add'',
          [(''name'', field True None),
           (''status'', field True None),
           (''description'', field False (Some PNone)),
           (''link'', field False (Some PNone)),
           (''order'', field False (Some (PInt 0))),
           (''group_id'', field False (Some PNone)),
           (''enabled'', field False (Some (PBool True)))]),
        (''update'',
          [(''name'', field False None),
           (''status'', field False None),
           (''link'', field False (Some PNone)),
           (''order'', field False (Some PNone)),
           (''group_id'', field False (Some PNone))])]),
     (''components.groups'',
       [(''add'',
          [(''name'', field True None),
           (''order'', field False (Some (PInt 0)))]),
        (''update'',
          [(''name'', field False (Some PNone)),
           (''order'', field False (Some PNone))])]),
     (''incidents'',
       [(''add'',
          [(''name'', field True None),
           (''message'', field True None),
           (''status'', field True None),
           (''visible'', field True (Some (PInt 1))),
           (''component_id'', field False (Some PNone)),
           (''component_status'', field False (Some PNone)),
           (''notify'', field False (Some (PBool False)))]),
        (''update'',
          [(''name'', field False None),
           (''message'', field False None),
           (''status'', field False None),
           (''visible'', field False (Some (PInt 1))),
           (''component_id'', field False None),
           (''notify'', field False None)])]),
     (''metrics'',
       [(''add'',
          [(''name'', field True None),
           (''suffix'', field True None),
           (''description'', field True None),
           (''default_value'', field True (Some (PInt 0))),
           (''display_chart'', field False (Some (PInt 1)))])]),
     (''metrics.points'',
       [(''add'',
          [(''value'', field True None)])])]"

section \<open>Argument builder\<close>

text \<open>
  The loop of \<^verbatim>\<open>_build_args\<close> over the items of one operation schema. The items come in
  the order the schema is written, which is the order of a dictionary that keeps
  insertion order. \<open>kwargs\<close> are the caller's keyword arguments, \<open>args\<close> the dictionary
  built so far. The early \<^verbatim>\<open>return\<close> on a missing mandatory field ends the loop with the
  failure dictionary.
\<close>

definition missing_result :: "string \<Rightarrow> pyval" where
  "missing_result k =
     PDict [(''res'', PBool False),
            (''message'', PStr (''Mandatory params '' @ k @ '' is missing''))]"

definition built_result :: "pydict \<Rightarrow> pyval" where
  "built_result args = PDict [(''res'', PBool True), (''data'', PDict args)]"

fun build_fields :: "schema \<Rightarrow> (string \<rightharpoonup> pyval) \<Rightarrow> pydict \<Rightarrow> pyval" where
  "build_fields [] kwargs args = built_result args"
| "build_fields ((k, config) # rest) kwargs args =
     (if mandatory config then
        (case kwargs k of
           None \<Rightarrow>
             (case default config of
                Some d \<Rightarrow> build_fields rest kwargs (AList.update k d args)
              | None \<Rightarrow> missing_result k)
         | Some v \<Rightarrow> build_fields rest kwargs (AList.update k v args))
      else
        (case kwargs k of
           Some v \<Rightarrow> build_fields rest kwargs (AList.update k v args)
         | None \<Rightarrow>
             (case default config of
                Some d \<Rightarrow>
                  (if truthy d then build_fields rest kwargs (AList.update k d args)
                   else build_fields rest kwargs args)
              | None \<Rightarrow> build_fields rest kwargs args)))"

text \<open>
  \<^verbatim>\<open>_build_args(obj, method, **kwargs)\<close>: an unknown resource or operation raises, a
  known one runs the loop from the empty dictionary.
\<close>

definition build_args :: "string \<Rightarrow> string \<Rightarrow> (string \<rightharpoonup> pyval) \<Rightarrow> error + pyval" where
  "build_args obj method kwargs =
     (case map_of CACHET_PARAMS_DEFINITION obj of
        None \<Rightarrow> Inl (Exception (obj @ '' not in CACHET_PARAMS_DEFINITION''))
      | Some methods \<Rightarrow>
          (case map_of methods method of
             None \<Rightarrow> Inl (Exception (method @ '' not in CACHET_PARAMS_DEFINITION['' @ obj @ '']''))
           | Some defn \<Rightarrow> Inr (build_fields defn kwargs [])))"

text \<open>
  The call \<^verbatim>\<open>_build_args(obj, method, **kwargs)\<close> as the operations make it, handing on
  their own keyword arguments. A keyword argument named \<^verbatim>\<open>obj\<close> or \<^verbatim>\<open>method\<close> collides with
  the positional parameter of that name, and the call raises \<^verbatim>\<open>TypeError\<close> before the body
  of \<^verbatim>\<open>_build_args\<close> runs.
\<close>

definition call_build_args :: "string \<Rightarrow> string \<Rightarrow> (string \<rightharpoonup> pyval) \<Rightarrow> error + pyval" where
  "call_build_args obj method kwargs =
     (if kwargs ''obj'' = None \<and> kwargs ''method'' = None
      then build_args obj method kwargs
      else Inl TypeError)"

section \<open>Domain validation\<close>

text \<open>\<^verbatim>\<open>_check_component_status\<close> and \<^verbatim>\<open>_check_incident_status\<close>: convert, then test the range.\<close>

definition check_component_status :: "pyval \<Rightarrow> error + unit" where
  "check_component_status data =
     (case py_int data of
        Inl err \<Rightarrow> Inl err
      | Inr status \<Rightarrow>
          (if status < 1 \<or> status > 4
           then Inl (Exception (''Wrong component status '' @ format_d status @ '', must be between 1 and 4''))
           else Inr ()))"

definition check_incident_status :: "pyval \<Rightarrow> error + unit" where
  "check_incident_status data =
     (case py_int data of
        Inl err \<Rightarrow> Inl err
      | Inr status \<Rightarrow>
          (if status < 0 \<or> status > 4
           then Inl (Exception (''Wrong incident status '' @ format_d status @ '', must be between 0 and 4''))
           else Inr ()))"

section \<open>Request executor\<close>

text \<open>
  The keyword arguments \<^verbatim>\<open>_query\<close> hands to \<^verbatim>\<open>salt.utils.http.query\<close> (the constant ones,
  \<^verbatim>\<open>decode=True\<close>, \<^verbatim>\<open>status=True\<close> and \<^verbatim>\<open>opts\<close>, are not recorded).
\<close>

record request =
  url :: pyval
  http_method :: string
  params :: pydict
  data :: pyval
  header_dict :: pydict

text \<open>
  The collaborators the module does not define: the configuration lookup
  \<^verbatim>\<open>__salt__['config.get']\<close>, \<^verbatim>\<open>urljoin\<close> (with its \<^verbatim>\<open>allow_fragments\<close> flag) and the
  HTTP transport, which answers a request with a result dictionary. Logging is not
  modelled.
\<close>

record env =
  config_get :: "string \<Rightarrow> pyval"
  urljoin :: "pyval \<Rightarrow> pyval \<Rightarrow> bool \<Rightarrow> pyval"
  http_query :: "request \<Rightarrow> pydict"

text \<open>
  What a call did: the value it returned or the exception it raised, and the HTTP
  requests it issued, in order.
\<close>

type_synonym outcome = "(error + pyval) \<times> request list"

definition raising :: "error + 'a \<Rightarrow> ('a \<Rightarrow> outcome) \<Rightarrow> outcome" where
  "raising x f = (case x of Inl err \<Rightarrow> (Inl err, []) | Inr v \<Rightarrow> f v)"

text \<open>\<^verbatim>\<open>config.get(k1) or config.get(k2)\<close>.\<close>

definition config_either :: "env \<Rightarrow> string \<Rightarrow> string \<Rightarrow> pyval" where
  "config_either e k1 k2 = (if truthy (config_get e k1) then config_get e k1 else config_get e k2)"

text \<open>\<^verbatim>\<open>result.get('status', None) == code\<close>, with Python's numeric equality.\<close>

definition status_is :: "pydict \<Rightarrow> int \<Rightarrow> bool" where
  "status_is result code =
     (case map_of result ''status'' of
        Some (PInt n) \<Rightarrow> n = code
      | Some (PBool b) \<Rightarrow> (if b then 1 else 0) = code
      | _ \<Rightarrow> False)"

text \<open>
  Reading a local variable: one that no executed statement has assigned raises
  \<^verbatim>\<open>UnboundLocalError\<close>.
\<close>

definition local_var :: "string \<Rightarrow> pyval option \<Rightarrow> error + pyval" where
  "local_var n v = (case v of None \<Rightarrow> Inl (UnboundLocalError n) | Some x \<Rightarrow> Inr x)"

text \<open>
  The names bound at module level of \<^verbatim>\<open>cachet.py\<close> (imports, assignments, functions, and
  the two names the loader injects). Reading a name that is neither bound in the
  function nor one of these nor a Python builtin raises \<^verbatim>\<open>NameError\<close>. A module-level
  name is bound to a module, a function or a table; the string of the name stands for
  that object here.
\<close>

definition module_names :: "string list" where
  "module_names =
     [''absolute_import'', ''logging'', ''_urljoin'', ''_urlencode'', ''range'', ''salt'',
      ''log'', ''__virtualname__'', ''CACHET_PARAMS_DEFINITION'', ''__virtual__'',
      ''_build_args'', ''_check_component_status'', ''_check_incident_status'', ''_query'',
      ''ping'', ''get_components'', ''add_component'', ''update_component'',
      ''delete_component'', ''get_components_groups'', ''add_component_group'',
      ''update_component_group'', ''delete_component_group'', ''get_incidents'',
      ''add_incident'', ''update_incident'', ''delete_incident'', ''get_metrics'',
      ''add_metric'', ''delete_metric'', ''get_metrics_points'', ''add_metric_point'',
      ''delete_metric_point'', ''__salt__'', ''__opts__'']"

definition load_name :: "(string \<rightharpoonup> pyval) \<Rightarrow> string \<Rightarrow> error + pyval" where
  "load_name locals n =
     (case locals n of
        Some v \<Rightarrow> Inr v
      | None \<Rightarrow> (if n \<in> set module_names then Inr (PStr n) else Inl (NameError n)))"

text \<open>
  The tail of \<^verbatim>\<open>_query\<close>: the reading of the transport's result. \<open>ret\<close> is the result
  dictionary prepared at the start of the call. In the last branch the local \<^verbatim>\<open>_result\<close>
  has not been assigned, and \<^verbatim>\<open>response\<close> is a name of no scope.
\<close>

definition interpret_result :: "pydict \<Rightarrow> pydict \<Rightarrow> error + pyval" where
  "interpret_result ret result =
     (if status_is result 200 then
        (case getitem result ''dict'' of
           Inl err \<Rightarrow> Inl err
         | Inr decoded \<Rightarrow>
             (case contains ''error'' decoded of
                Inl err \<Rightarrow> Inl err
              | Inr True \<Rightarrow>
                  (case subscript decoded ''error'' of
                     Inl err \<Rightarrow> Inl err
                   | Inr m \<Rightarrow>
                       Inr (PDict (AList.update ''res'' (PBool False) (AList.update ''message'' m ret))))
              | Inr False \<Rightarrow>
                  (case get_method decoded (PStr ''data'') of
                     Inl err \<Rightarrow> Inl err
                   | Inr m \<Rightarrow> Inr (PDict (AList.update ''message'' m ret)))))
      else if status_is result 204 then Inr (PBool True)
      else
        (if map_of result ''error'' \<noteq> None then
           (case getitem result ''error'' of
              Inl err \<Rightarrow> Inl err
            | Inr m \<Rightarrow>
                Inr (PDict (AList.update ''res'' (PBool False) (AList.update ''message'' m ret))))
         else
           (case local_var ''_result'' None of
              Inl err \<Rightarrow> Inl err
            | Inr decoded \<Rightarrow>
                (case load_name Map.empty ''response'' of
                   Inl err \<Rightarrow> Inl err
                 | Inr response \<Rightarrow>
                     (case get_method decoded response of
                        Inl err \<Rightarrow> Inl err
                      | Inr m \<Rightarrow> Inr (PDict (AList.update ''message'' m ret)))))))"

definition no_key_found :: "pydict \<Rightarrow> pyval" where
  "no_key_found ret =
     PDict (AList.update ''res'' (PBool False)
             (AList.update ''message'' (PStr ''No Cachet api key found.'') ret))"

text \<open>
  \<^verbatim>\<open>_query(function, api_url, api_token, auth, args, method, header_dict, data)\<close>.
  \<open>headers = None\<close> is Python's default \<^verbatim>\<open>None\<close> for \<^verbatim>\<open>header_dict\<close>.
\<close>

definition query ::
  "env \<Rightarrow> string \<Rightarrow> pyval \<Rightarrow> pyval \<Rightarrow> bool \<Rightarrow> pyval \<Rightarrow> string \<Rightarrow> pydict option \<Rightarrow> pyval \<Rightarrow> outcome" where
  "query e function api_url api_token auth args method headers body =
     (let ret = [(''message'', PStr []), (''res'', PBool True)];
          api_url' = (if \<not> truthy api_url
                      then config_either e ''cachet.api_url'' ''cachet:api_url'' else api_url)
      in if \<not> truthy api_url' then (Inr (no_key_found ret), [])
         else
           (let api_token' = (if auth \<and> \<not> truthy api_token
                              then config_either e ''cachet.api_token'' ''cachet:api_token''
                              else api_token)
            in if auth \<and> \<not> truthy api_token' then (Inr (no_key_found ret), [])
               else
                 (let base_url = urljoin e api_url' (PStr ''/api/v1/'') True;
                      u = urljoin e base_url (PStr function) False;
                      query_params = (case args of PDict d \<Rightarrow> d | _ \<Rightarrow> []);
                      hd0 = (case headers of None \<Rightarrow> [] | Some h \<Rightarrow> h);
                      hd1 = (if auth \<and> map_of hd0 ''X-Cachet-Token'' = None
                             then AList.update ''X-Cachet-Token'' api_token' hd0 else hd0);
                      req = \<lparr>url = u, http_method = method, params = query_params,
                             data = body, header_dict = hd1\<rparr>
                  in (interpret_result ret (http_query e req), [req]))))"

section \<open>Resource operations\<close>

text \<open>
  The operations the claims are about. An identifier is any value the caller passes; the
  path templates format it with \<^verbatim>\<open>%d\<close>, which raises on a value that is not a number. The
  optional \<^verbatim>\<open>id\<close> of a listing is \<^verbatim>\<open>None\<close> when not given, and \<^verbatim>\<open>if id\<close> takes every falsy
  value for not given. \<open>api_url\<close> and \<open>api_token\<close> are the overrides, \<^verbatim>\<open>None\<close> by default.
  \<open>kwargs\<close> are the remaining keyword arguments of the call.
\<close>

definition get_components :: "env \<Rightarrow> pyval \<Rightarrow> pyval \<Rightarrow> pyval \<Rightarrow> outcome" where
  "get_components e ident api_url api_token =
     (if truthy ident then
        raising (percent_d ident) (\<lambda>i.
          query e (''components/'' @ i) api_url api_token False PNone ''GET'' None PNone)
      else query e ''components'' api_url api_token False PNone ''GET'' None PNone)"

definition add_component :: "env \<Rightarrow> pyval \<Rightarrow> pyval \<Rightarrow> (string \<rightharpoonup> pyval) \<Rightarrow> outcome" where
  "add_component e api_url api_token kwargs =
     raising (call_build_args ''components'' ''add'' kwargs) (\<lambda>test.
     raising (subscript test ''res'') (\<lambda>r.
     if \<not> truthy r then (Inr test, [])
     else
       raising (subscript test ''data'') (\<lambda>args.
       raising (subscript args ''status'') (\<lambda>status.
       raising (check_component_status status) (\<lambda>_.
       query e ''components'' api_url api_token True args ''POST'' None PNone)))))"

definition update_component :: "env \<Rightarrow> pyval \<Rightarrow> pyval \<Rightarrow> pyval \<Rightarrow> (string \<rightharpoonup> pyval) \<Rightarrow> outcome" where
  "update_component e ident api_url api_token kwargs =
     raising (call_build_args ''components'' ''update'' kwargs) (\<lambda>test.
     raising (subscript test ''res'') (\<lambda>r.
     if \<not> truthy r then (Inr test, [])
     else
       raising (subscript test ''data'') (\<lambda>args.
       raising (subscript args ''status'') (\<lambda>status.
       raising (if truthy status then check_component_status status else Inr ()) (\<lambda>_.
       raising (percent_d ident) (\<lambda>i.
       query e (''components/'' @ i) api_url api_token True args ''PUT'' None PNone))))))"

definition update_incident :: "env \<Rightarrow> pyval \<Rightarrow> pyval \<Rightarrow> pyval \<Rightarrow> (string \<rightharpoonup> pyval) \<Rightarrow> outcome" where
  "update_incident e ident api_url api_token kwargs =
     raising (call_build_args ''incidents'' ''update'' kwargs) (\<lambda>test.
     raising (subscript test ''res'') (\<lambda>r.
     if \<not> truthy r then (Inr test, [])
     else
       raising (subscript test ''data'') (\<lambda>args.
       raising (subscript args ''status'') (\<lambda>status.
       raising (if truthy status then check_incident_status status else Inr ()) (\<lambda>_.
       raising (percent_d ident) (\<lambda>i.
       query e (''incidents/'' @ i) api_url api_token True args ''PUT'' None PNone))))))"


section \<open>Vocabulary for the builder's properties\<close>

text \<open>The operation schema the two lookups at the head of \<^verbatim>\<open>_build_args\<close> find, if any.\<close>

definition schema_of :: "string \<Rightarrow> string \<Rightarrow> schema option" where
  "schema_of obj method =
     (case map_of CACHET_PARAMS_DEFINITION obj of
        None \<Rightarrow> None
      | Some methods \<Rightarrow> map_of methods method)"

text \<open>
  What one pass of the loop stores for a field, given the supplied value if any: the four
  assignments of the loop body, read off as a function.
\<close>

definition field_value :: "field_spec \<Rightarrow> pyval option \<Rightarrow> pyval option" where
  "field_value config supplied =
     (case supplied of
        Some v \<Rightarrow> Some v
      | None \<Rightarrow>
          (case default config of
             None \<Rightarrow> None
           | Some d \<Rightarrow> (if mandatory config \<or> truthy d then Some d else None)))"

text \<open>The condition of the early \<^verbatim>\<open>return\<close>: mandatory, not supplied, no default.\<close>

definition is_missing :: "(string \<rightharpoonup> pyval) \<Rightarrow> string \<times> field_spec \<Rightarrow> bool" where
  "is_missing kwargs kc =
     (mandatory (snd kc) \<and> default (snd kc) = None \<and> kwargs (fst kc) = None)"

fun collect :: "schema \<Rightarrow> (string \<rightharpoonup> pyval) \<Rightarrow> pydict" where
  "collect [] kwargs = []"
| "collect ((k, config) # rest) kwargs =
     (case field_value config (kwargs k) of
        None \<Rightarrow> collect rest kwargs
      | Some v \<Rightarrow> (k, v) # collect rest kwargs)"

section \<open>An example deployment\<close>

text \<open>
  The deployment of the scenarios: the configuration holds the base URL
  \<^verbatim>\<open>https://status.example.com\<close> and a token, under the dotted spelling of the keys; a
  missing key reads as the empty string. On a base without a path and a path below a
  directory \<^verbatim>\<open>urljoin\<close> concatenates. The transport answers every request with the
  given result.
\<close>

definition example_config :: "string \<Rightarrow> pyval" where
  "example_config k =
     (if k = ''cachet.api_url'' then PStr ''https://status.example.com''
      else if k = ''cachet.api_token'' then PStr ''peWcBiMOS9HrZG15''
      else PStr [])"

definition example_urljoin :: "pyval \<Rightarrow> pyval \<Rightarrow> bool \<Rightarrow> pyval" where
  "example_urljoin base u allow_fragments =
     (case base of
        PStr b \<Rightarrow> (case u of PStr p \<Rightarrow> PStr (b @ p) | _ \<Rightarrow> PNone)
      | _ \<Rightarrow> PNone)"

definition example_env :: "pydict \<Rightarrow> env" where
  "example_env result =
     \<lparr>config_get = example_config, urljoin = example_urljoin, http_query = (\<lambda>req. result)\<rparr>"

text \<open>A deployment whose configuration holds nothing.\<close>

definition unconfigured_env :: "pydict \<Rightarrow> env" where
  "unconfigured_env result =
     \<lparr>config_get = (\<lambda>k. PStr []), urljoin = example_urljoin, http_query = (\<lambda>req. result)\<rparr>"

section \<open>The argument builder as a function of the schema\<close>

text \<open>
  Two facts describe the loop on any schema with distinct keys. When no field is missing,
  the loop returns the success result, and the argument set is the one \<open>collect\<close> reads
  off the schema, appended to the dictionary the loop started from. When a field is
  missing and none before it is, the loop returns the failure naming that field, whatever
  follows it. Both are shown by induction on the schema, for any dictionary built so far.
\<close>

lemma update_fresh: "k \<notin> fst ` set al \<Longrightarrow> AList.update k v al = al @ [(k, v)]"
  by (induction al) auto

lemma build_fields_collect:
  "distinct (map fst sch) \<Longrightarrow> fst ` set args \<inter> fst ` set sch = {} \<Longrightarrow>
   list_all (\<lambda>kc. \<not> is_missing kwargs kc) sch \<Longrightarrow>
   build_fields sch kwargs args = built_result (args @ collect sch kwargs)"
proof (induction sch arbitrary: args)
  case Nil
  then show ?case by simp
next
  case (Cons kc sch)
  obtain k config where kc: "kc = (k, config)" by (cases kc)
  have fresh: "k \<notin> fst ` set args" using Cons.prems(2) kc by auto
  have d: "distinct (map fst sch)" and knot: "k \<notin> fst ` set sch"
    using Cons.prems(1) kc by auto
  have rest: "list_all (\<lambda>kc. \<not> is_missing kwargs kc) sch" using Cons.prems(3) by simp
  have nm: "\<not> is_missing kwargs (k, config)" using Cons.prems(3) kc by simp
  have disj: "fst ` set args \<inter> fst ` set sch = {}" using Cons.prems(2) by auto
  have disj': "\<And>v. fst ` set (args @ [(k, v)]) \<inter> fst ` set sch = {}"
    using disj knot by auto
  have keep: "build_fields sch kwargs args = built_result (args @ collect sch kwargs)"
    by (rule Cons.IH [OF d disj rest])
  have add: "\<And>v. build_fields sch kwargs (AList.update k v args)
                 = built_result (args @ (k, v) # collect sch kwargs)"
    using Cons.IH [OF d disj' rest] by (simp add: update_fresh [OF fresh])
  show ?case
    using nm keep add
    by (auto simp: kc field_value_def is_missing_def split: option.splits)
qed

lemma map_of_collect:
  "distinct (map fst sch) \<Longrightarrow>
   map_of (collect sch kwargs) k =
     (case map_of sch k of None \<Rightarrow> None | Some config \<Rightarrow> field_value config (kwargs k))"
proof (induction sch)
  case Nil then show ?case by simp
next
  case (Cons kc sch)
  obtain k' config where kc: "kc = (k', config)" by (cases kc)
  have nk: "map_of sch k' = None" using Cons.prems kc by (simp add: map_of_eq_None_iff)
  show ?case using Cons nk by (auto simp: kc split: option.splits)
qed


text \<open>Every declared schema has distinct keys, so both facts apply to \<^verbatim>\<open>_build_args\<close>.\<close>

lemma schema_of_distinct:
  "schema_of obj method = Some sch \<Longrightarrow> distinct (map fst sch)"
  by (auto simp: schema_of_def CACHET_PARAMS_DEFINITION_def split: if_splits option.splits)

lemma build_args_schema:
  "schema_of obj method = Some sch \<Longrightarrow> build_args obj method kwargs = Inr (build_fields sch kwargs [])"
  by (auto simp: schema_of_def build_args_def split: option.splits)


lemma build_args_complete:
  assumes s: "schema_of obj method = Some sch"
    and nm: "\<forall>kc \<in> set sch. \<not> is_missing kwargs kc"
  shows "build_args obj method kwargs = Inr (built_result (collect sch kwargs))"
proof -
  have d: "distinct (map fst sch)" by (rule schema_of_distinct [OF s])
  have "list_all (\<lambda>kc. \<not> is_missing kwargs kc) sch" using nm by (simp add: list_all_iff)
  then show ?thesis
    using build_fields_collect [OF d, of "[]" kwargs] build_args_schema [OF s] by simp
qed

lemma map_of_collect_field:
  assumes s: "schema_of obj method = Some sch" and mem: "(k, config) \<in> set sch"
  shows "map_of (collect sch kwargs) k = field_value config (kwargs k)"
proof -
  have d: "distinct (map fst sch)" by (rule schema_of_distinct [OF s])
  have "map_of sch k = Some config" using d mem by (rule map_of_is_SomeI)
  then show ?thesis by (simp add: map_of_collect [OF d])
qed



lemma components_update_schema:
  "schema_of ''components'' ''update'' =
     Some [(''name'', field False None),
           (''status'', field False None),
           (''link'', field False (Some PNone)),
           (''order'', field False (Some PNone)),
           (''group_id'', field False (Some PNone))]"
  by (simp add: schema_of_def CACHET_PARAMS_DEFINITION_def)


lemma incidents_update_schema:
  "schema_of ''incidents'' ''update'' =
     Some [(''name'', field False None),
           (''message'', field False None),
           (''status'', field False None),
           (''visible'', field False (Some (PInt 1))),
           (''component_id'', field False None),
           (''notify'', field False None)]"
  by (simp add: schema_of_def CACHET_PARAMS_DEFINITION_def)


section \<open>Claims about the argument builder\<close>





section \<open>Claims about the update operations\<close>

lemma raising_Inr: "raising (Inr v) f = f v"
  by (simp add: raising_def)

lemma update_build:
  assumes s: "schema_of obj method = Some sch"
    and k: "kwargs ''status'' = None"
    and opt: "\<forall>kc \<in> set sch. \<not> mandatory (snd kc)"
    and f: "(''status'', field False None) \<in> set sch"
  shows "\<exists>args. build_args obj method kwargs = Inr (built_result args) \<and>
               map_of args ''status'' = None"
proof -
  have nm: "\<forall>kc \<in> set sch. \<not> is_missing kwargs kc" using opt by (simp add: is_missing_def)
  have "map_of (collect sch kwargs) ''status'' = None"
    using map_of_collect_field [OF s f, of kwargs] k by (simp add: field_value_def field_def)
  then show ?thesis using build_args_complete [OF s nm] by blast
qed

lemma status_lookup_fails:
  assumes "map_of args ''status'' = None"
  shows "raising (subscript (built_result args) ''res'') (\<lambda>r.
           if \<not> truthy r then (Inr (built_result args), [])
           else raising (subscript (built_result args) ''data'') (\<lambda>a.
                  raising (subscript a ''status'') (f a)))
         = (Inl (KeyError ''status''), [])"
  using assms by (simp add: raising_def built_result_def getitem_def)

lemma call_build_args_plain:
  "kwargs ''obj'' = None \<Longrightarrow> kwargs ''method'' = None \<Longrightarrow>
   call_build_args obj method kwargs = build_args obj method kwargs"
  by (simp add: call_build_args_def)

lemma call_build_args_collision:
  "\<not> (kwargs ''obj'' = None \<and> kwargs ''method'' = None) \<Longrightarrow>
   call_build_args obj method kwargs = Inl TypeError"
  by (auto simp: call_build_args_def)

text \<open>
  Claim C9, as amended. Whenever the keyword arguments of \<^verbatim>\<open>update_component\<close>, and
  likewise of \<^verbatim>\<open>update_incident\<close>, do not include \<^verbatim>\<open>status\<close>, the call raises and no HTTP
  request has been issued. When they name neither \<^verbatim>\<open>obj\<close> nor \<^verbatim>\<open>method\<close>, the argument set
  built for the update has no \<^verbatim>\<open>status\<close> key and the lookup \<^verbatim>\<open>args['status']\<close> raises
  \<^verbatim>\<open>KeyError\<close>. When they name \<^verbatim>\<open>obj\<close> or \<^verbatim>\<open>method\<close>, the call of \<^verbatim>\<open>_build_args\<close> itself
  raises \<^verbatim>\<open>TypeError\<close>, and no argument set is built.
\<close>

theorem update_without_status:
  assumes "kwargs ''status'' = None"
  shows "(kwargs ''obj'' = None \<and> kwargs ''method'' = None \<longrightarrow>
            (\<exists>args. build_args ''components'' ''update'' kwargs = Inr (built_result args) \<and>
                   map_of args ''status'' = None) \<and>
            update_component e ident api_url api_token kwargs = (Inl (KeyError ''status''), []) \<and>
            (\<exists>args. build_args ''incidents'' ''update'' kwargs = Inr (built_result args) \<and>
                   map_of args ''status'' = None) \<and>
            update_incident e ident api_url api_token kwargs = (Inl (KeyError ''status''), [])) \<and>
         (\<not> (kwargs ''obj'' = None \<and> kwargs ''method'' = None) \<longrightarrow>
            update_component e ident api_url api_token kwargs = (Inl TypeError, []) \<and>
            update_incident e ident api_url api_token kwargs = (Inl TypeError, [])) \<and>
         snd (update_component e ident api_url api_token kwargs) = [] \<and>
         snd (update_incident e ident api_url api_token kwargs) = []"
proof (cases "kwargs ''obj'' = None \<and> kwargs ''method'' = None")
  case True
  then have plain: "call_build_args res op kwargs = build_args res op kwargs" for res op
    by (simp add: call_build_args_plain)
  obtain ca where ca: "build_args ''components'' ''update'' kwargs = Inr (built_result ca)"
      "map_of ca ''status'' = None"
    using update_build [where kwargs = kwargs, OF components_update_schema assms] by (auto simp: field_def)
  obtain ia where ia: "build_args ''incidents'' ''update'' kwargs = Inr (built_result ia)"
      "map_of ia ''status'' = None"
    using update_build [where kwargs = kwargs, OF incidents_update_schema assms] by (auto simp: field_def)
  have c: "update_component e ident api_url api_token kwargs = (Inl (KeyError ''status''), [])"
    unfolding update_component_def plain ca(1)
    by (simp add: raising_Inr status_lookup_fails [OF ca(2)])
  have i: "update_incident e ident api_url api_token kwargs = (Inl (KeyError ''status''), [])"
    unfolding update_incident_def plain ia(1)
    by (simp add: raising_Inr status_lookup_fails [OF ia(2)])
  show ?thesis using True ca ia c i by auto
next
  case False
  then have coll: "call_build_args res op kwargs = Inl TypeError" for res op
    by (rule call_build_args_collision)
  have c: "update_component e ident api_url api_token kwargs = (Inl TypeError, [])"
    by (simp add: update_component_def coll raising_def)
  have i: "update_incident e ident api_url api_token kwargs = (Inl TypeError, [])"
    by (simp add: update_incident_def coll raising_def)
  show ?thesis using False c i by simp
qed

theorem update_without_status_witness:
  "update_component (example_env [(''status'', PInt 200), (''dict'', PDict [])]) (PInt 1) PNone PNone
     [''name'' \<mapsto> PStr ''toto''] = (Inl (KeyError ''status''), []) \<and>
   update_incident (example_env [(''status'', PInt 200), (''dict'', PDict [])]) (PInt 1) PNone PNone
     [''name'' \<mapsto> PStr ''toto''] = (Inl (KeyError ''status''), []) \<and>
   update_component (example_env [(''status'', PInt 200), (''dict'', PDict [])]) (PInt 1) PNone PNone
     [''method'' \<mapsto> PStr ''PATCH''] = (Inl TypeError, []) \<and>
   update_incident (example_env [(''status'', PInt 200), (''dict'', PDict [])]) (PInt 1) PNone PNone
     [''method'' \<mapsto> PStr ''PATCH''] = (Inl TypeError, [])"
  using update_without_status [of "[''name'' \<mapsto> PStr ''toto'']"
      "example_env [(''status'', PInt 200), (''dict'', PDict [])]" "PInt 1" PNone PNone]
    update_without_status [of "[''method'' \<mapsto> PStr ''PATCH'']"
      "example_env [(''status'', PInt 200), (''dict'', PDict [])]" "PInt 1" PNone PNone]
  by simp

text \<open>
  The claim as first stated has the key lookup fail for all keyword arguments without
  \<^verbatim>\<open>status\<close>. For \<^verbatim>\<open>update_component(1, method="PATCH")\<close> no argument set is built and the
  exception is the \<^verbatim>\<open>TypeError\<close> of the call of \<^verbatim>\<open>_build_args\<close>.
\<close>

theorem update_without_status_counterexample:
  "update_component (example_env [(''status'', PInt 200), (''dict'', PDict [])]) (PInt 1) PNone PNone
     [''method'' \<mapsto> PStr ''PATCH''] = (Inl TypeError, []) \<and>
   update_component (example_env [(''status'', PInt 200), (''dict'', PDict [])]) (PInt 1) PNone PNone
     [''method'' \<mapsto> PStr ''PATCH''] \<noteq> (Inl (KeyError ''status''), [])"
  by (simp add: update_component_def call_build_args_def raising_def)

section \<open>Claims about adding a component\<close>

lemma components_add_API:
  "build_args ''components'' ''add'' [''name'' \<mapsto> PStr ''API'', ''status'' \<mapsto> s]
     = Inr (built_result [(''name'', PStr ''API''), (''status'', s), (''enabled'', PBool True)])"
  by (simp add: build_args_def CACHET_PARAMS_DEFINITION_def field_def)

lemma add_component_API:
  "add_component e api_url api_token [''name'' \<mapsto> PStr ''API'', ''status'' \<mapsto> s] =
     raising (check_component_status s) (\<lambda>_.
       query e ''components'' api_url api_token True
         (PDict [(''name'', PStr ''API''), (''status'', s), (''enabled'', PBool True)])
         ''POST'' None PNone)"
  by (simp add: add_component_def call_build_args_def components_add_API raising_Inr
      built_result_def getitem_def)

lemma check_component_status_ok: "check_component_status (PInt 1) = Inr ()"
  by (simp add: check_component_status_def)

text \<open>
  Claim C1, as amended. With a base URL and a token in the configuration and no
  overrides, \<^verbatim>\<open>add_component(name="API", status=1)\<close> issues exactly one request: a POST to
  the URL joined from the base, \<^verbatim>\<open>/api/v1/\<close> and \<^verbatim>\<open>components\<close>, with the header
  \<^verbatim>\<open>X-Cachet-Token\<close> set to the configured token, and with the argument set
  \<^verbatim>\<open>{name: "API", status: 1, enabled: True}\<close> passed as the query parameters; the request
  has no body. The argument set has no \<^verbatim>\<open>order\<close>: the default 0 of that optional field
  is falsy, and the builder stores a default of an optional field only when it is truthy.
\<close>

theorem add_component_request:
  assumes "truthy (config_either e ''cachet.api_url'' ''cachet:api_url'')"
    and "truthy (config_either e ''cachet.api_token'' ''cachet:api_token'')"
  shows "snd (add_component e PNone PNone [''name'' \<mapsto> PStr ''API'', ''status'' \<mapsto> PInt 1]) =
     [\<lparr>url = urljoin e (urljoin e (config_either e ''cachet.api_url'' ''cachet:api_url'')
                                 (PStr ''/api/v1/'') True)
                      (PStr ''components'') False,
       http_method = ''POST'',
       params = [(''name'', PStr ''API''), (''status'', PInt 1), (''enabled'', PBool True)],
       data = PNone,
       header_dict = [(''X-Cachet-Token'', config_either e ''cachet.api_token'' ''cachet:api_token'')]\<rparr>]"
  using assms
  by (simp add: add_component_API check_component_status_ok raising_Inr query_def Let_def)

theorem add_component_request_witness:
  "snd (add_component (example_env [(''status'', PInt 200), (''dict'', PDict [(''data'', PDict [(''id'', PInt 7)])])])
         PNone PNone [''name'' \<mapsto> PStr ''API'', ''status'' \<mapsto> PInt 1]) =
     [\<lparr>url = PStr ''https://status.example.com/api/v1/components'',
       http_method = ''POST'',
       params = [(''name'', PStr ''API''), (''status'', PInt 1), (''enabled'', PBool True)],
       data = PNone,
       header_dict = [(''X-Cachet-Token'', PStr ''peWcBiMOS9HrZG15'')]\<rparr>]"
  using add_component_request [of "example_env [(''status'', PInt 200), (''dict'', PDict [(''data'', PDict [(''id'', PInt 7)])])]"]
  by (simp add: example_env_def example_config_def example_urljoin_def config_either_def)

text \<open>
  The claim as first stated has \<^verbatim>\<open>order: 0\<close> in the argument set. In the example deployment
  the parameters of the request are these three, and \<^verbatim>\<open>order\<close> is not among them.
\<close>

theorem add_component_order_counterexample:
  "params (hd (snd (add_component (example_env [(''status'', PInt 200), (''dict'', PDict [(''data'', PDict [(''id'', PInt 7)])])])
         PNone PNone [''name'' \<mapsto> PStr ''API'', ''status'' \<mapsto> PInt 1])))
     = [(''name'', PStr ''API''), (''status'', PInt 1), (''enabled'', PBool True)] \<and>
   map_of (params (hd (snd (add_component (example_env [(''status'', PInt 200), (''dict'', PDict [(''data'', PDict [(''id'', PInt 7)])])])
         PNone PNone [''name'' \<mapsto> PStr ''API'', ''status'' \<mapsto> PInt 1])))) ''order'' \<noteq> Some (PInt 0)"
  by (simp add: add_component_API check_component_status_ok raising_Inr query_def Let_def
      example_env_def example_config_def example_urljoin_def config_either_def)

text \<open>
  Claim C4. \<^verbatim>\<open>_check_component_status\<close> raises exactly when its argument, converted by
  \<^verbatim>\<open>int\<close>, is below 1 or above 4, with the message naming the converted value; an
  argument that \<^verbatim>\<open>int\<close> rejects raises the conversion's own exception. In particular
  \<^verbatim>\<open>add_component(name="API", status=9)\<close>, whatever the deployment and the overrides,
  assembles its arguments and then raises, with no HTTP request issued.
\<close>

theorem check_component_status_range:
  "(py_int d = Inr n \<longrightarrow>
      (check_component_status d = Inr ()) = (1 \<le> n \<and> n \<le> 4) \<and>
      (n < 1 \<or> 4 < n \<longrightarrow>
         check_component_status d =
           Inl (Exception (''Wrong component status '' @ format_d n @ '', must be between 1 and 4'')))) \<and>
   (py_int d' = Inl err \<longrightarrow> check_component_status d' = Inl err) \<and>
   build_args ''components'' ''add'' [''name'' \<mapsto> PStr ''API'', ''status'' \<mapsto> PInt 9]
     = Inr (built_result [(''name'', PStr ''API''), (''status'', PInt 9), (''enabled'', PBool True)]) \<and>
   add_component e api_url api_token [''name'' \<mapsto> PStr ''API'', ''status'' \<mapsto> PInt 9]
     = (Inl (Exception ''Wrong component status 9, must be between 1 and 4''), [])"
proof -
  have "format_d 9 = ''9''" by code_simp
  then have "check_component_status (PInt 9)
               = Inl (Exception ''Wrong component status 9, must be between 1 and 4'')"
    by (simp add: check_component_status_def)
  then have "add_component e api_url api_token [''name'' \<mapsto> PStr ''API'', ''status'' \<mapsto> PInt 9]
     = (Inl (Exception ''Wrong component status 9, must be between 1 and 4''), [])"
    by (simp add: add_component_API raising_def)
  then show ?thesis
    by (auto simp: check_component_status_def components_add_API)
qed

theorem check_component_status_range_witness:
  "check_component_status (PInt 1) = Inr () \<and>
   check_component_status (PInt 4) = Inr () \<and>
   check_component_status (PInt 0)
     = Inl (Exception ''Wrong component status 0, must be between 1 and 4'') \<and>
   check_component_status (PInt 5)
     = Inl (Exception ''Wrong component status 5, must be between 1 and 4'') \<and>
   check_component_status (PInt (- 1))
     = Inl (Exception ''Wrong component status -1, must be between 1 and 4'') \<and>
   check_component_status (PStr ''down'') = Inl ValueError \<and>
   check_component_status PNone = Inl TypeError"
proof -
  have f: "format_d 0 = ''0''" "format_d 5 = ''5''" "format_d (- 1) = ''-1''"
    by code_simp+
  have s: "int_of_string ''down'' = Inl ValueError"
    by code_simp
  show ?thesis
    using check_component_status_range [of "PInt 1" 1 "PStr ''down''" ValueError]
      check_component_status_range [of "PInt 4" 4 PNone TypeError]
      check_component_status_range [of "PInt 0" 0 PNone TypeError]
      check_component_status_range [of "PInt 5" 5 PNone TypeError]
      check_component_status_range [of "PInt (- 1)" "- 1" PNone TypeError]
    by (simp add: f s)
qed

section \<open>Claims about the request executor\<close>

lemma query_issued:
  "snd (query e function api_url api_token auth args method headers body) = [req] \<Longrightarrow>
   fst (query e function api_url api_token auth args method headers body)
     = interpret_result [(''message'', PStr []), (''res'', PBool True)] (http_query e req)"
  by (auto simp: query_def Let_def split: if_splits)

lemma status_is_unique: "status_is result a \<Longrightarrow> status_is result b \<Longrightarrow> a = b"
  by (auto simp: status_is_def split: option.splits pyval.splits)

text \<open>
  The last statement of \<^verbatim>\<open>_query\<close>, \<^verbatim>\<open>ret['message'] = _result.get(response)\<close>, never
  completes: whenever the status is neither 200 nor 204 and the transport's result has no
  \<^verbatim>\<open>error\<close> entry, the call raises on \<^verbatim>\<open>_result\<close>, which only the branch for 200 assigns.
\<close>

lemma query_other_status_unbound:
  assumes "snd (query e function api_url api_token auth args method headers body) = [req]"
    and "\<not> status_is (http_query e req) 200"
    and "\<not> status_is (http_query e req) 204"
    and "map_of (http_query e req) ''error'' = None"
  shows "fst (query e function api_url api_token auth args method headers body)
           = Inl (UnboundLocalError ''_result'')"
  using assms(2-4)
  by (simp add: query_issued [OF assms(1)] interpret_result_def local_var_def)

text \<open>
  In the theorems of this section, \<open>snd (query \<dots>) = [req]\<close> says that the call issued the
  request \<open>req\<close>, so that \<open>http_query e req\<close> is the transport's answer to it.

  Claim C6, as amended. When the transport answers with status 200 and a decoded body
  that is a dictionary: if the body has an \<^verbatim>\<open>error\<close> key, \<^verbatim>\<open>_query\<close> returns a failure whose
  message is that key's value; otherwise it returns a success whose message is the
  body's \<^verbatim>\<open>data\<close> value, or \<^verbatim>\<open>None\<close> when the body has no \<^verbatim>\<open>data\<close> key. The witness is
  the scenario of \<^verbatim>\<open>get_components()\<close> against the body
  \<^verbatim>\<open>{"data": [{"id": 1, "name": "API"}]}\<close>.
\<close>

theorem query_ok_status:
  assumes "snd (query e function api_url api_token auth args method headers body) = [req]"
    and "status_is (http_query e req) 200"
    and "map_of (http_query e req) ''dict'' = Some (PDict decoded)"
  shows "fst (query e function api_url api_token auth args method headers body) =
           (case map_of decoded ''error'' of
              Some m \<Rightarrow> Inr (PDict [(''message'', m), (''res'', PBool False)])
            | None \<Rightarrow>
                Inr (PDict [(''message'', (case map_of decoded ''data'' of Some d \<Rightarrow> d | None \<Rightarrow> PNone)),
                            (''res'', PBool True)]))"
  using assms(2,3)
  by (simp add: query_issued [OF assms(1)] interpret_result_def getitem_def split: option.splits)

theorem query_ok_status_witness:
  "fst (get_components
         (example_env [(''status'', PInt 200),
                       (''dict'', PDict [(''data'', PList [PDict [(''id'', PInt 1), (''name'', PStr ''API'')]])])])
         PNone PNone PNone)
     = Inr (PDict [(''message'', PList [PDict [(''id'', PInt 1), (''name'', PStr ''API'')]]),
                   (''res'', PBool True)])"
proof -
  let ?result = "[(''status'', PInt 200),
                  (''dict'', PDict [(''data'', PList [PDict [(''id'', PInt 1), (''name'', PStr ''API'')]])])]"
  let ?req = "\<lparr>url = PStr ''https://status.example.com/api/v1/components'', http_method = ''GET'',
               params = [], data = PNone, header_dict = []\<rparr>"
  have r: "snd (query (example_env ?result) ''components'' PNone PNone False PNone ''GET'' None PNone) = [?req]"
    by (simp add: query_def Let_def example_env_def example_config_def example_urljoin_def
        config_either_def)
  have s: "status_is (http_query (example_env ?result) ?req) 200"
    by (simp add: example_env_def status_is_def)
  have d: "map_of (http_query (example_env ?result) ?req) ''dict''
             = Some (PDict [(''data'', PList [PDict [(''id'', PInt 1), (''name'', PStr ''API'')]])])"
    by (simp add: example_env_def)
  show ?thesis
    using query_ok_status [OF r s d] by (simp add: get_components_def)
qed

text \<open>
  The claim as first stated surfaces the whole decoded body when \<^verbatim>\<open>data\<close> is absent. On the
  body \<^verbatim>\<open>{"id": 1}\<close> the message is \<^verbatim>\<open>None\<close>, which is what \<^verbatim>\<open>_result.get('data')\<close> gives.
\<close>

theorem query_ok_status_counterexample:
  "fst (get_components
         (example_env [(''status'', PInt 200), (''dict'', PDict [(''id'', PInt 1)])])
         PNone PNone PNone)
     = Inr (PDict [(''message'', PNone), (''res'', PBool True)]) \<and>
   fst (get_components
         (example_env [(''status'', PInt 200), (''dict'', PDict [(''id'', PInt 1)])])
         PNone PNone PNone)
     \<noteq> Inr (PDict [(''message'', PDict [(''id'', PInt 1)]), (''res'', PBool True)])"
  by (simp add: get_components_def query_def Let_def example_env_def example_config_def
      example_urljoin_def config_either_def interpret_result_def status_is_def getitem_def)

text \<open>
  Claim C7. When the transport answers with status 204, \<^verbatim>\<open>_query\<close> returns the bare value
  \<^verbatim>\<open>True\<close>: an unconditional success, with nothing of the response in it.
\<close>

theorem query_no_content:
  assumes "snd (query e function api_url api_token auth args method headers body) = [req]"
    and "status_is (http_query e req) 204"
  shows "fst (query e function api_url api_token auth args method headers body) = Inr (PBool True)"
proof -
  have "\<not> status_is (http_query e req) 200"
    using status_is_unique [OF assms(2), of 200] by auto
  then show ?thesis
    using assms(2) by (simp add: query_issued [OF assms(1)] interpret_result_def)
qed

theorem query_no_content_witness:
  "fst (query (example_env [(''status'', PInt 204)]) ''components/3'' PNone PNone True PNone
          ''DELETE'' None PNone) = Inr (PBool True)"
proof -
  let ?req = "\<lparr>url = PStr ''https://status.example.com/api/v1/components/3'',
               http_method = ''DELETE'', params = [], data = PNone,
               header_dict = [(''X-Cachet-Token'', PStr ''peWcBiMOS9HrZG15'')]\<rparr>"
  have r: "snd (query (example_env [(''status'', PInt 204)]) ''components/3'' PNone PNone True PNone
          ''DELETE'' None PNone) = [?req]"
    by (simp add: query_def Let_def example_env_def example_config_def example_urljoin_def
        config_either_def)
  have s: "status_is (http_query (example_env [(''status'', PInt 204)]) ?req) 204"
    by (simp add: example_env_def status_is_def)
  show ?thesis by (rule query_no_content [OF r s])
qed

text \<open>
  The part of the last branch that works. When the transport answers with a status that
  is neither 200 nor 204 and its result dictionary has an \<^verbatim>\<open>error\<close> entry, \<^verbatim>\<open>_query\<close> returns
  a failure whose message is that entry's value: a result \<^verbatim>\<open>{status: 500, error: "boom"}\<close>
  gives \<^verbatim>\<open>{res: False, message: "boom"}\<close>. The \<^verbatim>\<open>error\<close> looked for is an entry of the
  transport's result, not a field of the decoded body.
\<close>

lemma query_error_entry:
  assumes "snd (query e function api_url api_token auth args method headers body) = [req]"
    and "\<not> status_is (http_query e req) 200"
    and "\<not> status_is (http_query e req) 204"
    and "map_of (http_query e req) ''error'' = Some m"
  shows "fst (query e function api_url api_token auth args method headers body)
           = Inr (PDict [(''message'', m), (''res'', PBool False)])"
  using assms(2-4)
  by (simp add: query_issued [OF assms(1)] interpret_result_def getitem_def)

lemma query_error_entry_example:
  "fst (query (example_env [(''status'', PInt 500), (''error'', PStr ''boom'')]) ''components'' PNone PNone
          False PNone ''GET'' None PNone)
     = Inr (PDict [(''message'', PStr ''boom''), (''res'', PBool False)])"
proof -
  let ?result = "[(''status'', PInt 500), (''error'', PStr ''boom'')]"
  let ?req = "\<lparr>url = PStr ''https://status.example.com/api/v1/components'', http_method = ''GET'',
               params = [], data = PNone, header_dict = []\<rparr>"
  have r: "snd (query (example_env ?result) ''components'' PNone PNone False PNone ''GET'' None PNone) = [?req]"
    by (simp add: query_def Let_def example_env_def example_config_def example_urljoin_def
        config_either_def)
  have s: "\<not> status_is (http_query (example_env ?result) ?req) 200"
      "\<not> status_is (http_query (example_env ?result) ?req) 204"
    by (simp_all add: example_env_def status_is_def)
  have m: "map_of (http_query (example_env ?result) ?req) ''error'' = Some (PStr ''boom'')"
    by (simp add: example_env_def)
  show ?thesis by (rule query_error_entry [OF r s m])
qed

text \<open>
  Claim C5. For a transport response whose status is neither 200 nor 204, \<^verbatim>\<open>_query\<close> is to
  return a failure result, with the \<^verbatim>\<open>error\<close> field as the message when there is one and a
  generic failure indicator otherwise; status 500 with the body \<^verbatim>\<open>{"error": "boom"}\<close> is to
  give \<^verbatim>\<open>{res: False, message: "boom"}\<close>. The code does not do this. At that response the
  transport's result has no \<^verbatim>\<open>error\<close> entry of its own, the statement meant to fill in
  the message reads \<^verbatim>\<open>_result\<close>, and the call raises \<^verbatim>\<open>UnboundLocalError\<close> instead of
  returning; \<open>query_other_status_unbound\<close> shows the same for every such response
  without an \<^verbatim>\<open>error\<close> entry.
\<close>

theorem query_error_status_raises:
  "fst (query (example_env [(''status'', PInt 500), (''dict'', PDict [(''error'', PStr ''boom'')])])
          ''components'' PNone PNone False PNone ''GET'' None PNone)
     = Inl (UnboundLocalError ''_result'') \<and>
   fst (query (example_env [(''status'', PInt 500), (''dict'', PDict [(''error'', PStr ''boom'')])])
          ''components'' PNone PNone False PNone ''GET'' None PNone)
     \<noteq> Inr (PDict [(''message'', PStr ''boom''), (''res'', PBool False)])"
  by (simp add: query_def Let_def example_env_def example_config_def
      example_urljoin_def config_either_def interpret_result_def status_is_def local_var_def)

text \<open>
  Claim C8. With no \<^verbatim>\<open>api_url\<close> override and neither \<^verbatim>\<open>cachet.api_url\<close> nor
  \<^verbatim>\<open>cachet:api_url\<close> set to a non-empty value in the configuration, \<^verbatim>\<open>_query\<close> returns a failure
  result at once and issues no request, whatever its other arguments are.
\<close>

theorem query_no_api_url:
  assumes "\<not> truthy api_url"
    and "\<not> truthy (config_get e ''cachet.api_url'')"
    and "\<not> truthy (config_get e ''cachet:api_url'')"
  shows "query e function api_url api_token auth args method headers body
           = (Inr (PDict [(''message'', PStr ''No Cachet api key found.''), (''res'', PBool False)]), [])"
  using assms by (simp add: query_def Let_def config_either_def no_key_found_def)

theorem query_no_api_url_witness:
  "query (unconfigured_env [(''status'', PInt 200), (''dict'', PDict [])]) ''components'' PNone PNone
     False PNone ''GET'' None PNone
     = (Inr (PDict [(''message'', PStr ''No Cachet api key found.''), (''res'', PBool False)]), [])"
  using query_no_api_url [of PNone "unconfigured_env [(''status'', PInt 200), (''dict'', PDict [])]"]
  by (simp add: unconfigured_env_def)

section \<open>Claim about deleting a metric point\<close>




end
